theory Spec2Isabelle
  imports Complex_Main
begin

section \<open>JavaScript values used by the services\<close>

text \<open>
  Numbers are JavaScript numbers in the source. They are modelled as exact reals: every
  property below is about comparisons against fixed thresholds, \<open>Math.min\<close>, sums and
  quotients, and is stated for the mathematical value of those expressions. Counters,
  sizes and millisecond durations are \<open>nat\<close> or \<open>int\<close>.
  Strings are \<open>string\<close>; an optional property (\<open>x?: T\<close>, or a property
  that parsed JSON may lack) is \<open>T option\<close>, \<open>None\<close> standing for
  \<open>undefined\<close>/\<open>null\<close>.
\<close>

text \<open>Truthiness of an optional string and of an optional number, as \<open>!x\<close> and \<open>x || y\<close> test it.\<close>

definition truthy_str :: "string option \<Rightarrow> bool" where
  "truthy_str s = (case s of None \<Rightarrow> False | Some t \<Rightarrow> t \<noteq> [])"

definition truthy_num :: "real option \<Rightarrow> bool" where
  "truthy_num x = (case x of None \<Rightarrow> False | Some v \<Rightarrow> v \<noteq> 0)"

text \<open>\<open>String.prototype.toLowerCase\<close> on the ASCII letters (no other character lowers to a
  letter of \<open>healthy\<close>), and \<open>String.prototype.includes\<close>.\<close>

definition toLowerChar :: "char \<Rightarrow> char" where
  "toLowerChar c =
     (case map_of (zip ''ABCDEFGHIJKLMNOPQRSTUVWXYZ'' ''abcdefghijklmnopqrstuvwxyz'') c of
        Some l \<Rightarrow> l
      | None \<Rightarrow> c)"

definition toLowerCase :: "string \<Rightarrow> string" where
  "toLowerCase s = map toLowerChar s"

fun startsWith :: "string \<Rightarrow> string \<Rightarrow> bool" where
  "startsWith s [] = True"
| "startsWith [] (p # ps) = False"
| "startsWith (c # cs) (p # ps) = (c = p \<and> startsWith cs ps)"

fun str_includes :: "string \<Rightarrow> string \<Rightarrow> bool" where
  "str_includes [] pat = (pat = [])"
| "str_includes (c # cs) pat = (startsWith (c # cs) pat \<or> str_includes cs pat)"

text \<open>A number inside a template string: its decimal digits.\<close>

definition digit_char :: "nat \<Rightarrow> char" where
  "digit_char d = ''0123456789'' ! d"

fun decimal :: "nat \<Rightarrow> string" where
  "decimal n = (if 10 \<le> n then decimal (n div 10) @ [digit_char (n mod 10)] else [digit_char n])"

definition decimal_int :: "int \<Rightarrow> string" where
  "decimal_int i = (if 0 \<le> i then decimal (nat i) else CHR ''-'' # decimal (nat (- i)))"

text \<open>The exceptions the services throw. \<open>HttpException\<close> carries the status, the message
  and the \<open>details\<close> of its response object.\<close>

datatype exception =
    Error string
  | TypeError string
  | BadRequestException string
  | NotFoundException string
  | HttpException nat string string

fun exc_message :: "exception \<Rightarrow> string" where
  "exc_message (Error m) = m"
| "exc_message (TypeError m) = m"
| "exc_message (BadRequestException m) = m"
| "exc_message (NotFoundException m) = m"
| "exc_message (HttpException st m d) = m"


section \<open>Recommendation content (schemas/recommendation.schema.ts)\<close>

record TreatmentStep =
  step :: nat
  action :: string
  description :: string
  materials :: "string list option"
  duration :: "string option"
  precautions :: "string list option"

record PreventionMeasure =
  category :: string
  pm_measure :: string
  pm_description :: string
  frequency :: string
  priority :: string

record RecommendationContent =
  disease :: string
  confidence :: real
  severity :: string
  immediateActions :: "string list"
  treatmentSteps :: "TreatmentStep list"
  preventionMeasures :: "PreventionMeasure list"
  additionalNotes :: string
  sourceReliability :: real
  estimatedRecoveryTime :: string


section \<open>The templated generator (MockOpenaiService)\<close>

definition isHealthy :: "string \<Rightarrow> bool" where
  "isHealthy classification = str_includes (toLowerCase classification) ''healthy''"

definition getEstimatedRecoveryTime :: "string \<Rightarrow> string" where
  "getEstimatedRecoveryTime sev =
     (if sev = ''mild'' then ''1-3 weeks with proper treatment''
      else if sev = ''moderate'' then ''3-6 weeks with consistent treatment''
      else if sev = ''severe'' then
        ''6-12 weeks with intensive treatment and possible plant replacement''
      else ''3-6 weeks with proper treatment'')"

definition healthy_immediateActions :: "string list" where
  "healthy_immediateActions =
     [''Continue current care routine'',
      ''Monitor plant regularly'',
      ''Maintain proper watering schedule'']"

definition healthy_treatmentSteps :: "TreatmentStep list" where
  "healthy_treatmentSteps =
     [\<lparr>step = 1,
       action = ''Maintain Current Care'',
       description = ''Continue with your current plant care routine as the plant appears healthy.'',
       materials = Some [''Regular watering tools'', ''Fertilizer (if scheduled)''],
       duration = Some ''Ongoing'',
       precautions = Some [''Avoid overwatering'', ''Monitor for any changes'']\<rparr>]"

definition healthy_preventionMeasures :: "PreventionMeasure list" where
  "healthy_preventionMeasures =
     [\<lparr>category = ''General Care'',
       pm_measure = ''Regular monitoring'',
       pm_description = ''Check plant weekly for any signs of disease or stress'',
       frequency = ''Weekly'',
       priority = ''high''\<rparr>,
      \<lparr>category = ''Environmental Control'',
       pm_measure = ''Maintain optimal conditions'',
       pm_description = ''Ensure proper light, temperature, and humidity levels'',
       frequency = ''Daily'',
       priority = ''high''\<rparr>,
      \<lparr>category = ''Nutrition'',
       pm_measure = ''Balanced fertilization'',
       pm_description = ''Apply appropriate fertilizer according to plant needs and season'',
       frequency = ''Monthly'',
       priority = ''medium''\<rparr>]"

definition disease_immediateActions :: "string list" where
  "disease_immediateActions =
     [''Isolate affected plants immediately'',
      ''Remove all infected leaves using sterilized tools'',
      ''Improve air circulation around the plant'',
      ''Stop overhead watering immediately'',
      ''Dispose of infected plant material properly'']"

definition disease_treatmentSteps :: "TreatmentStep list" where
  "disease_treatmentSteps =
     [\<lparr>step = 1,
       action = ''Remove infected foliage'',
       description = ''Carefully remove all leaves showing signs of angular leaf spot using sterilized pruning shears. Cut back to healthy tissue.'',
       materials = Some [''Sterilized pruning shears'', ''Rubbing alcohol'', ''Disposal bags''],
       duration = Some ''30-45 minutes'',
       precautions = Some [''Wear gloves'', ''Disinfect tools between cuts'', ''Do not compost infected material'']\<rparr>,
      \<lparr>step = 2,
       action = ''Apply copper-based fungicide'',
       description = ''Spray remaining healthy foliage with copper-based fungicide according to manufacturer instructions.'',
       materials = Some [''Copper fungicide'', ''Spray bottle or garden sprayer'', ''Protective equipment''],
       duration = Some ''15-20 minutes'',
       precautions = Some [''Apply in evening to avoid leaf burn'', ''Wear protective clothing'', ''Follow label instructions'']\<rparr>,
      \<lparr>step = 3,
       action = ''Improve growing conditions'',
       description = ''Increase spacing between plants, ensure proper drainage, and improve air circulation.'',
       materials = Some [''Fan (if indoor)'', ''Mulch'', ''Drainage materials''],
       duration = Some ''1-2 hours'',
       precautions = Some [''Avoid overcrowding'', ''Ensure good drainage'']\<rparr>,
      \<lparr>step = 4,
       action = ''Monitor and reapply treatment'',
       description = ''Monitor plant weekly and reapply fungicide every 7-14 days as needed.'',
       materials = Some [''Same as step 2''],
       duration = Some ''15 minutes per application'',
       precautions = Some [''Do not over-apply'', ''Rotate fungicide types if needed'']\<rparr>]"

definition disease_preventionMeasures :: "PreventionMeasure list" where
  "disease_preventionMeasures =
     [\<lparr>category = ''Environmental Control'',
       pm_measure = ''Improve air circulation'',
       pm_description = ''Ensure adequate spacing between plants and use fans if necessary to improve airflow'',
       frequency = ''Maintain continuously'',
       priority = ''high''\<rparr>,
      \<lparr>category = ''Watering Management'',
       pm_measure = ''Avoid overhead watering'',
       pm_description = ''Water at soil level to keep leaves dry and reduce disease spread'',
       frequency = ''Every watering session'',
       priority = ''high''\<rparr>,
      \<lparr>category = ''Sanitation'',
       pm_measure = ''Clean growing area'',
       pm_description = ''Remove fallen leaves and debris regularly to reduce disease pressure'',
       frequency = ''Weekly'',
       priority = ''medium''\<rparr>,
      \<lparr>category = ''Plant Health'',
       pm_measure = ''Avoid plant stress'',
       pm_description = ''Maintain consistent watering and proper nutrition to keep plants strong'',
       frequency = ''Ongoing'',
       priority = ''medium''\<rparr>,
      \<lparr>category = ''Preventive Treatment'',
       pm_measure = ''Seasonal fungicide application'',
       pm_description = ''Apply preventive fungicide treatments during high-risk periods'',
       frequency = ''Seasonally'',
       priority = ''low''\<rparr>]"

definition disease_additionalNotes :: "string option \<Rightarrow> string" where
  "disease_additionalNotes additionalContext =
     ''Angular leaf spot is a bacterial disease that thrives in warm, humid conditions. ''
     @ (if truthy_str additionalContext
        then ''Additional context: '' @ the additionalContext @ ''. ''
        else '''')
     @ ''Early detection and treatment are crucial for successful management. Consider consulting a plant pathologist if symptoms persist after 3-4 weeks of treatment. Avoid working with wet plants to prevent spread.''"

definition generateMockRecommendation ::
    "string \<Rightarrow> real \<Rightarrow> string option \<Rightarrow> RecommendationContent" where
  "generateMockRecommendation classification conf additionalContext =
     (if isHealthy classification then
        \<lparr>disease = ''Healthy Plant'',
         confidence = min (conf + 0.05) 1.0,
         severity = ''mild'',
         immediateActions = healthy_immediateActions,
         treatmentSteps = healthy_treatmentSteps,
         preventionMeasures = healthy_preventionMeasures,
         additionalNotes = ''Your plant appears to be in good health. Continue with preventive care to maintain its condition.'',
         sourceReliability = 0.9,
         estimatedRecoveryTime = ''Plant is already healthy''\<rparr>
      else
        (let sev = (if conf > 0.8 then ''moderate''
                    else if conf > 0.6 then ''mild'' else ''severe'')
         in \<lparr>disease = ''Angular Leaf Spot'',
             confidence = min (conf + 0.1) 1.0,
             severity = sev,
             immediateActions = disease_immediateActions,
             treatmentSteps = disease_treatmentSteps,
             preventionMeasures = disease_preventionMeasures,
             additionalNotes = disease_additionalNotes additionalContext,
             sourceReliability = 0.85,
             estimatedRecoveryTime = getEstimatedRecoveryTime sev\<rparr>))"

text \<open>\<open>MockOpenaiService.generateRecommendation\<close> waits for a simulated latency and then
  returns the template; it has no failing path.\<close>

definition mock_generateRecommendation ::
    "string \<Rightarrow> real \<Rightarrow> string option \<Rightarrow> exception + RecommendationContent" where
  "mock_generateRecommendation classification conf additionalContext =
     Inr (generateMockRecommendation classification conf additionalContext)"


section \<open>The delegated generator (OpenaiService): validation of the parsed response\<close>

text \<open>The object that \<open>JSON.parse\<close> returns is typed \<open>RecommendationContent\<close> but may lack
  any property; \<open>validateAndEnhanceResponse\<close> updates it in place and returns it.\<close>

record ParsedContent =
  resp_disease :: "string option"
  resp_confidence :: "real option"
  resp_severity :: "string option"
  resp_immediateActions :: "string list option"
  resp_treatmentSteps :: "TreatmentStep list option"
  resp_preventionMeasures :: "PreventionMeasure list option"
  resp_additionalNotes :: "string option"
  resp_sourceReliability :: "real option"
  resp_estimatedRecoveryTime :: "string option"

definition getDefaultRecoveryTime :: "string \<Rightarrow> string" where
  "getDefaultRecoveryTime sev =
     (if sev = ''mild'' then ''1-2 weeks with proper care''
      else if sev = ''moderate'' then ''2-4 weeks with consistent treatment''
      else if sev = ''severe'' then ''4-8 weeks with intensive treatment''
      else ''2-4 weeks with proper treatment'')"

definition severity_enum :: "string list" where
  "severity_enum = [''mild'', ''moderate'', ''severe'']"

definition validateAndEnhanceResponse ::
    "ParsedContent \<Rightarrow> string \<Rightarrow> real \<Rightarrow> exception + ParsedContent" where
  "validateAndEnhanceResponse response classification conf =
     (if \<not> truthy_str (resp_disease response) \<or> \<not> truthy_str (resp_severity response)
         \<or> resp_immediateActions response = None
      then Inl (BadRequestException ''Incomplete recommendation generated'')
      else
        (let r1 = response\<lparr>
               resp_immediateActions :=
                 Some (case resp_immediateActions response of Some as \<Rightarrow> as | None \<Rightarrow> []),
               resp_treatmentSteps :=
                 Some (case resp_treatmentSteps response of Some ts \<Rightarrow> ts | None \<Rightarrow> []),
               resp_preventionMeasures :=
                 Some (case resp_preventionMeasures response of Some ps \<Rightarrow> ps | None \<Rightarrow> [])\<rparr>;
             r2 = r1\<lparr>resp_confidence :=
                    Some (min conf (if truthy_num (resp_confidence r1)
                                    then the (resp_confidence r1) else conf))\<rparr>;
             r3 = r2\<lparr>resp_sourceReliability :=
                    Some (if truthy_num (resp_sourceReliability r2)
                          then the (resp_sourceReliability r2) else 0.85)\<rparr>;
             r4 = (if the (resp_severity r3) \<notin> set severity_enum
                   then r3\<lparr>resp_severity := Some (if conf > 0.8 then ''moderate'' else ''mild'')\<rparr>
                   else r3);
             r5 = (if \<not> truthy_str (resp_estimatedRecoveryTime r4)
                   then r4\<lparr>resp_estimatedRecoveryTime :=
                          Some (getDefaultRecoveryTime (the (resp_severity r4)))\<rparr>
                   else r4)
         in Inr r5))"


text \<open>\<open>generateRecommendation\<close> of the delegated generator. The chat-completion call either
  rejects, with \<open>error.response?.status\<close> and a message, or resolves with the content of
  the first choice; \<open>JSON_parse\<close> is \<open>JSON.parse\<close>, \<open>None\<close> when it throws. Every
  exception of the inner \<open>try\<close>, that of the validation included, becomes the
  \<open>Invalid response format\<close> exception, which the outer \<open>catch\<close> rethrows.\<close>

datatype completion_outcome = ApiRejected "nat option" string | Completed "string option"

definition OpenaiService_generateRecommendation ::
    "(string \<Rightarrow> ParsedContent option) \<Rightarrow> completion_outcome \<Rightarrow> string \<Rightarrow> real \<Rightarrow> string option
       \<Rightarrow> exception + ParsedContent" where
  "OpenaiService_generateRecommendation JSON_parse completion classification conf additionalContext =
     (case completion of
        ApiRejected response_status m \<Rightarrow>
          (if response_status = Some 429 then
             Inl (BadRequestException
                    ''AI service temporarily unavailable due to rate limits. Please try again later.'')
           else if response_status = Some 401 then
             Inl (BadRequestException
                    ''AI service authentication failed. Please check configuration.'')
           else Inl (BadRequestException ''Failed to generate recommendation. Please try again.''))
      | Completed content \<Rightarrow>
          (if \<not> truthy_str content then
             Inl (BadRequestException ''Failed to generate recommendation. Please try again.'')
           else
             (case JSON_parse (the content) of
                None \<Rightarrow> Inl (BadRequestException ''Invalid response format from AI service'')
              | Some parsedContent \<Rightarrow>
                  (case validateAndEnhanceResponse parsedContent classification conf of
                     Inl e \<Rightarrow> Inl (BadRequestException ''Invalid response format from AI service'')
                   | Inr r \<Rightarrow> Inr r))))"

section \<open>Configuration (config/configuration.ts)\<close>

text \<open>\<open>parseInt(process.env.X, 10) || d\<close>: the environment value enters as the integer
  \<open>parseInt\<close> reads from it, \<open>None\<close> when the variable is unset or not a number
  (\<open>NaN\<close>); \<open>NaN\<close> and 0 are falsy and give the default.\<close>

definition parseInt_or :: "int option \<Rightarrow> int \<Rightarrow> int" where
  "parseInt_or v d = (case v of None \<Rightarrow> d | Some n \<Rightarrow> if n = 0 then d else n)"

definition ml_maxRetries :: "int option \<Rightarrow> int" where
  "ml_maxRetries env_ML_API_MAX_RETRIES = parseInt_or env_ML_API_MAX_RETRIES 3"

definition upload_maxFileSize :: "int option \<Rightarrow> int" where
  "upload_maxFileSize env_MAX_FILE_SIZE = parseInt_or env_MAX_FILE_SIZE (16 * 1024 * 1024)"

definition upload_allowedMimeTypes :: "string list" where
  "upload_allowedMimeTypes =
     [''image/jpeg'', ''image/png'', ''image/gif'', ''image/bmp'', ''image/tiff'', ''image/webp'']"


section \<open>The classifier proxy (MlModelService)\<close>

record PythonPrediction =
  pred_confidence :: real
  pred_file_size :: nat
  pred_filename :: string
  pred_health_status :: string
  pred_interpretation :: string
  pred_result :: string
  pred_status :: string
  pred_threshold :: real

record PythonApiResponse =
  api_success :: bool
  api_prediction :: "PythonPrediction option"
  api_error :: "string option"
  api_message :: "string option"

record MlPredictionResult =
  predicted_class :: string
  ml_confidence :: real
  probabilities :: "(string \<times> real) list"
  processing_time_ms :: int
  model_version :: string
  timestamp :: string

text \<open>\<open>transformPythonResponse\<close> reads \<open>pythonResponse.prediction\<close>, which its only caller
  has checked to be present; \<open>isoTime\<close> is the value of \<open>new Date().toISOString()\<close>.\<close>

definition transformPythonResponse :: "string \<Rightarrow> PythonPrediction \<Rightarrow> MlPredictionResult" where
  "transformPythonResponse isoTime prediction =
     \<lparr>predicted_class =
        (if pred_status prediction = ''healthy'' then ''healthy'' else ''angular_leaf_spot''),
      ml_confidence = pred_confidence prediction,
      probabilities =
        [(''healthy'',
            if pred_status prediction = ''healthy'' then pred_confidence prediction
            else 1 - pred_confidence prediction),
         (''angular_leaf_spot'',
            if pred_status prediction = ''unhealthy'' then pred_confidence prediction
            else 1 - pred_confidence prediction)],
      processing_time_ms = 0,
      model_version = ''1.0.0'',
      timestamp = isoTime\<rparr>"

text \<open>One POST to the classifier either rejects (network error, timeout, non-2xx status)
  with a message, or resolves with a response body.\<close>

datatype http_outcome = HttpFailure string | HttpResponse PythonApiResponse

text \<open>The body of the \<open>try\<close> block of one attempt.\<close>

definition attempt_result :: "string \<Rightarrow> http_outcome \<Rightarrow> exception + MlPredictionResult" where
  "attempt_result isoTime out =
     (case out of
        HttpFailure m \<Rightarrow> Inl (Error m)
      | HttpResponse d \<Rightarrow>
          (if api_success d \<and> api_prediction d \<noteq> None
           then Inr (transformPythonResponse isoTime (the (api_prediction d)))
           else Inl (Error (if truthy_str (api_error d) then the (api_error d)
                            else ''Invalid response from ML API''))))"

text \<open>What the proxy does on the network and on the clock, in order: the POST of attempt
  \<open>n\<close>, and a wait of so many milliseconds.\<close>

datatype event = is_Post: Post nat | Sleep nat

text \<open>The loop \<open>for (let attempt = 1; attempt <= retries; attempt++)\<close>. \<open>http n\<close> is the
  outcome of the POST of attempt \<open>n\<close>. When the loop body never runs the function
  returns \<open>undefined\<close>, here \<open>Inr None\<close>.\<close>

function makeRequestWithRetry_from ::
    "(nat \<Rightarrow> http_outcome) \<Rightarrow> string \<Rightarrow> int \<Rightarrow> nat \<Rightarrow> event list
       \<Rightarrow> event list \<times> (exception + MlPredictionResult option)" where
  "makeRequestWithRetry_from http isoTime retries attempt tr =
     (if int attempt \<le> retries then
        (case attempt_result isoTime (http attempt) of
           Inr r \<Rightarrow> (tr @ [Post attempt], Inr (Some r))
         | Inl e \<Rightarrow>
             (if int attempt = retries then (tr @ [Post attempt], Inl e)
              else makeRequestWithRetry_from http isoTime retries (Suc attempt)
                     (tr @ [Post attempt, Sleep (2 ^ attempt * 1000)])))
      else (tr, Inr None))"
  by pat_completeness auto
termination
  by (relation "measure (\<lambda>(http, isoTime, retries, attempt, tr). nat (retries + 1 - int attempt))")
     auto

definition makeRequestWithRetry ::
    "(nat \<Rightarrow> http_outcome) \<Rightarrow> string \<Rightarrow> int
       \<Rightarrow> event list \<times> (exception + MlPredictionResult option)" where
  "makeRequestWithRetry http isoTime retries = makeRequestWithRetry_from http isoTime retries 1 []"

text \<open>The temporary directory: the paths that exist, and the paths removed by a successful
  \<open>unlink\<close>, in order. \<open>cleanupFile\<close> swallows the error of an \<open>unlink\<close> on a
  missing file.\<close>

record Disk =
  files :: "string set"
  unlinked :: "string list"

definition cleanupFile :: "Disk \<Rightarrow> string \<Rightarrow> Disk" where
  "cleanupFile d filePath =
     (if filePath \<in> files d
      then d\<lparr>files := files d - {filePath}, unlinked := unlinked d @ [filePath]\<rparr>
      else d)"

text \<open>What one call of \<open>classifyImage\<close> meets outside the process: the classifier's
  answers per attempt, the timestamp string, and the clock at entry and at exit.\<close>

record CallEnv =
  http :: "nat \<Rightarrow> http_outcome"
  isoTime :: string
  startTime :: int
  endTime :: int

definition undefined_result_message :: string where
  "undefined_result_message =
     ''Cannot set properties of undefined (setting 'processing_time_ms')''"

definition MlModelService_classifyImage ::
    "int \<Rightarrow> CallEnv \<Rightarrow> Disk \<Rightarrow> string \<Rightarrow> Disk \<times> (exception + MlPredictionResult)" where
  "MlModelService_classifyImage maxRetries env d imagePath =
     (case snd (makeRequestWithRetry (http env) (isoTime env) maxRetries) of
        Inr (Some result) \<Rightarrow>
          (cleanupFile d imagePath,
           Inr (result\<lparr>processing_time_ms := endTime env - startTime env\<rparr>))
      | Inr None \<Rightarrow>
          (cleanupFile (cleanupFile d imagePath) imagePath,
           Inl (HttpException 500 ''Failed to classify image'' undefined_result_message))
      | Inl e \<Rightarrow>
          (cleanupFile d imagePath,
           Inl (HttpException 500 ''Failed to classify image'' (exc_message e))))"

record MlBatchEntry =
  filename :: string
  result :: "MlPredictionResult option"
  error :: "string option"

text \<open>\<open>Promise.allSettled\<close> over one task per path, each with its own \<open>try\<close>/\<open>catch\<close>.
  The tasks share nothing but the temporary directory; they are run here in index
  order. No task rejects, so the \<open>rejected\<close> branch of the final \<open>map\<close> is never taken.\<close>

fun MlModelService_classifyImagesBatch_from ::
    "int \<Rightarrow> (nat \<Rightarrow> CallEnv) \<Rightarrow> nat \<Rightarrow> Disk \<Rightarrow> string list \<Rightarrow> Disk \<times> MlBatchEntry list" where
  "MlModelService_classifyImagesBatch_from maxRetries envs index d [] = (d, [])"
| "MlModelService_classifyImagesBatch_from maxRetries envs index d (imagePath # rest) =
     (let (d1, r) = MlModelService_classifyImage maxRetries (envs index) d imagePath;
          entry = (case r of
                     Inr res \<Rightarrow>
                       \<lparr>filename = ''image_'' @ decimal (index + 1),
                        result = Some res, error = None\<rparr>
                   | Inl e \<Rightarrow>
                       \<lparr>filename = ''image_'' @ decimal (index + 1),
                        result = None, error = Some (exc_message e)\<rparr>);
          (d2, entries) = MlModelService_classifyImagesBatch_from maxRetries envs (Suc index) d1 rest
      in (d2, entry # entries))"

definition MlModelService_classifyImagesBatch ::
    "int \<Rightarrow> (nat \<Rightarrow> CallEnv) \<Rightarrow> Disk \<Rightarrow> string list \<Rightarrow> Disk \<times> MlBatchEntry list" where
  "MlModelService_classifyImagesBatch maxRetries envs d imagePaths =
     MlModelService_classifyImagesBatch_from maxRetries envs 0 d imagePaths"


section \<open>Upload validation and classification (ImageClassificationService)\<close>

record MulterFile =
  originalname :: string
  mimetype :: string
  fsize :: nat
  path :: "string option"

fun join_with :: "string \<Rightarrow> string list \<Rightarrow> string" where
  "join_with sep [] = []"
| "join_with sep [x] = x"
| "join_with sep (x # y # ys) = x @ sep @ join_with sep (y # ys)"

text \<open>\<open>Math.round\<close> rounds halves up.\<close>

definition Math_round :: "real \<Rightarrow> int" where
  "Math_round x = \<lfloor>x + 1 / 2\<rfloor>"

definition validateFile :: "string list \<Rightarrow> int \<Rightarrow> MulterFile option \<Rightarrow> exception + unit" where
  "validateFile allowedMimeTypes maxFileSize file =
     (case file of
        None \<Rightarrow> Inl (BadRequestException ''No file provided'')
      | Some f \<Rightarrow>
          (if mimetype f \<notin> set allowedMimeTypes then
             Inl (BadRequestException
                    (''Invalid file type. Allowed types: '' @ join_with '', '' allowedMimeTypes))
           else if int (fsize f) > maxFileSize then
             Inl (BadRequestException
                    (''File too large. Maximum size: ''
                     @ decimal_int (Math_round (real_of_int maxFileSize / 1024 / 1024)) @ ''MB''))
           else if \<not> truthy_str (path f) then
             Inl (BadRequestException ''File upload failed'')
           else Inr ()))"

definition transformPredictionResult :: "MlPredictionResult \<Rightarrow> MlPredictionResult" where
  "transformPredictionResult mlResult =
     \<lparr>predicted_class = predicted_class mlResult,
      ml_confidence = ml_confidence mlResult,
      probabilities = probabilities mlResult,
      processing_time_ms = processing_time_ms mlResult,
      model_version = model_version mlResult,
      timestamp = timestamp mlResult\<rparr>"

definition undefined_file_message :: string where
  "undefined_file_message = ''Cannot read properties of undefined (reading 'originalname')''"

text \<open>\<open>classifyImage\<close> logs \<open>file.originalname\<close>, validates outside of any \<open>try\<close>, and only
  then calls the proxy, which is the one place where the file is removed.\<close>

definition ImageClassificationService_classifyImage ::
    "string list \<Rightarrow> int \<Rightarrow> int \<Rightarrow> CallEnv \<Rightarrow> Disk \<Rightarrow> MulterFile option
       \<Rightarrow> Disk \<times> (exception + MlPredictionResult)" where
  "ImageClassificationService_classifyImage allowedMimeTypes maxFileSize maxRetries env d file =
     (case file of
        None \<Rightarrow> (d, Inl (TypeError undefined_file_message))
      | Some f \<Rightarrow>
          (case validateFile allowedMimeTypes maxFileSize file of
             Inl e \<Rightarrow> (d, Inl e)
           | Inr u \<Rightarrow>
               (case MlModelService_classifyImage maxRetries env d (the (path f)) of
                  (d', Inr res) \<Rightarrow> (d', Inr (transformPredictionResult res))
                | (d', Inl e) \<Rightarrow> (d', Inl e))))"




record BatchPredictionResultDto =
  dto_filename :: string
  dto_result :: "MlPredictionResult option"
  dto_error :: "string option"

record BatchSummary =
  sum_total :: nat
  sum_successful :: nat
  sum_failed :: nat

text \<open>\<open>files.forEach(file => this.validateFile(file))\<close>: the first file that fails
  validation throws for the whole batch.\<close>

fun validateAll :: "string list \<Rightarrow> int \<Rightarrow> MulterFile list \<Rightarrow> exception + unit" where
  "validateAll allowedMimeTypes maxFileSize [] = Inr ()"
| "validateAll allowedMimeTypes maxFileSize (f # fs) =
     (case validateFile allowedMimeTypes maxFileSize (Some f) of
        Inl e \<Rightarrow> Inl e
      | Inr u \<Rightarrow> validateAll allowedMimeTypes maxFileSize fs)"

definition ImageClassificationService_classifyImagesBatch ::
    "string list \<Rightarrow> int \<Rightarrow> int \<Rightarrow> (nat \<Rightarrow> CallEnv) \<Rightarrow> Disk \<Rightarrow> MulterFile list
       \<Rightarrow> Disk \<times> (exception + BatchPredictionResultDto list \<times> BatchSummary)" where
  "ImageClassificationService_classifyImagesBatch allowedMimeTypes maxFileSize maxRetries envs d fs =
     (if fs = [] then (d, Inl (BadRequestException ''No files provided for batch processing''))
      else
        (case validateAll allowedMimeTypes maxFileSize fs of
           Inl e \<Rightarrow> (d, Inl e)
         | Inr u \<Rightarrow>
             (let filePaths = map (\<lambda>f. the (path f)) fs;
                  (d', mlResults) = MlModelService_classifyImagesBatch maxRetries envs d filePaths;
                  results = map (\<lambda>(mlResult, index).
                                   \<lparr>dto_filename = originalname (fs ! index),
                                    dto_result = map_option transformPredictionResult (result mlResult),
                                    dto_error = error mlResult\<rparr>)
                                (zip mlResults [0 ..< length mlResults]);
                  nsuccessful = length (filter (\<lambda>r. dto_result r \<noteq> None \<and> \<not> truthy_str (dto_error r))
                                         results);
                  nfailed = length results - nsuccessful
              in (d', Inr (results,
                           \<lparr>sum_total = length results, sum_successful = nsuccessful,
                             sum_failed = nfailed\<rparr>)))))"


section \<open>The recommendation store (RecommendationsService)\<close>

text \<open>A stored document. \<open>rec_id\<close> stands for the database's \<open>_id\<close>; \<open>'c\<close> is the
  content, which the service never inspects. The collection is the list of its documents
  in insertion order, and the database is taken to be reachable.\<close>

record 'c Recommendation =
  rec_id :: nat
  sessionId :: string
  imageClassification :: string
  classificationConfidence :: real
  content :: 'c
  generatedBy :: string
  promptVersion :: string
  userRating :: "real option"
  userFeedback :: "string option"
  createdAt :: int
  updatedAt :: int

record GenerateRecommendationDto =
  gen_classification :: string
  gen_confidence :: real
  gen_sessionId :: string
  gen_additionalContext :: "string option"

record FeedbackDto =
  recommendationId :: nat
  rating :: real
  feedback :: "string option"


text \<open>The injected \<open>AI_SERVICE\<close>: its \<open>generateRecommendation\<close>, which may throw, and its
  \<open>constructor.name\<close>.\<close>

record 'c AiService =
  ai_generateRecommendation :: "string \<Rightarrow> real \<Rightarrow> string option \<Rightarrow> exception + 'c"
  ai_constructor_name :: string

definition MockOpenaiService :: "RecommendationContent AiService" where
  "MockOpenaiService =
     \<lparr>ai_generateRecommendation = mock_generateRecommendation,
      ai_constructor_name = ''MockOpenaiService''\<rparr>"

definition OpenaiService ::
    "(string \<Rightarrow> ParsedContent option) \<Rightarrow> completion_outcome \<Rightarrow> ParsedContent AiService" where
  "OpenaiService JSON_parse completion =
     \<lparr>ai_generateRecommendation = OpenaiService_generateRecommendation JSON_parse completion,
      ai_constructor_name = ''OpenaiService''\<rparr>"

definition currentPromptVersion :: string where
  "currentPromptVersion = ''1.0.0''"

text \<open>\<open>new this.recommendationModel({...})\<close>: the six given paths, and the schema's
  defaults for the others: \<open>@Prop({ default: 0 }) userRating\<close>, \<open>@Prop() userFeedback\<close>,
  \<open>@Prop({ default: Date.now })\<close> for both timestamps.\<close>

definition new_Recommendation ::
    "nat \<Rightarrow> int \<Rightarrow> string \<Rightarrow> string \<Rightarrow> real \<Rightarrow> 'c \<Rightarrow> string \<Rightarrow> string \<Rightarrow> 'c Recommendation" where
  "new_Recommendation fresh_id now sid cls conf c gen ver =
     \<lparr>rec_id = fresh_id,
      sessionId = sid,
      imageClassification = cls,
      classificationConfidence = conf,
      content = c,
      generatedBy = gen,
      promptVersion = ver,
      userRating = Some 0,
      userFeedback = None,
      createdAt = now,
      updatedAt = now\<rparr>"

text \<open>\<open>save()\<close> runs the schema's validators (\<open>required: true\<close> rejects an empty string,
  \<open>min: 0, max: 1\<close> on the confidence). On a document just constructed it inserts the
  document, under an \<open>_id\<close> that no stored document has; on a document loaded by
  \<open>findById\<close> it replaces the stored document with that \<open>_id\<close>.\<close>

definition schema_validate :: "'c Recommendation \<Rightarrow> exception + unit" where
  "schema_validate r =
     (if sessionId r = [] \<or> imageClassification r = [] \<or> generatedBy r = []
         \<or> promptVersion r = []
         \<or> classificationConfidence r < 0 \<or> classificationConfidence r > 1
      then Inl (Error ''Recommendation validation failed'')
      else Inr ())"

definition fresh_id :: "'c Recommendation list \<Rightarrow> nat" where
  "fresh_id store = foldr (\<lambda>r m. max (Suc (rec_id r)) m) store 0"

definition save_new ::
    "'c Recommendation list \<Rightarrow> 'c Recommendation \<Rightarrow> exception + 'c Recommendation list" where
  "save_new store r =
     (case schema_validate r of
        Inl e \<Rightarrow> Inl e
      | Inr u \<Rightarrow> Inr (store @ [r]))"

definition save_loaded ::
    "'c Recommendation list \<Rightarrow> 'c Recommendation \<Rightarrow> exception + 'c Recommendation list" where
  "save_loaded store r =
     (case schema_validate r of
        Inl e \<Rightarrow> Inl e
      | Inr u \<Rightarrow> Inr (map (\<lambda>x. if rec_id x = rec_id r then r else x) store))"

definition findById :: "'c Recommendation list \<Rightarrow> nat \<Rightarrow> 'c Recommendation option" where
  "findById store i = find (\<lambda>r. rec_id r = i) store"

record 'c RecommendationResponseDto =
  rdto_id :: nat
  rdto_sessionId :: string
  rdto_imageClassification :: string
  rdto_classificationConfidence :: real
  rdto_content :: 'c
  rdto_generatedBy :: string
  rdto_userRating :: "real option"
  rdto_userFeedback :: "string option"
  rdto_createdAt :: int
  rdto_updatedAt :: int

definition transformToResponseDto :: "'c Recommendation \<Rightarrow> 'c RecommendationResponseDto" where
  "transformToResponseDto recommendation =
     \<lparr>rdto_id = rec_id recommendation,
      rdto_sessionId = sessionId recommendation,
      rdto_imageClassification = imageClassification recommendation,
      rdto_classificationConfidence = classificationConfidence recommendation,
      rdto_content = content recommendation,
      rdto_generatedBy = generatedBy recommendation,
      rdto_userRating = userRating recommendation,
      rdto_userFeedback = userFeedback recommendation,
      rdto_createdAt = createdAt recommendation,
      rdto_updatedAt = updatedAt recommendation\<rparr>"

record 'c RecommendationGeneratedResponseDto =
  success :: bool
  message :: string
  data :: "'c RecommendationResponseDto option"
  processingTimeMs :: int

text \<open>\<open>generateRecommendation\<close>: \<open>t_start\<close> and \<open>t_end\<close> are the two readings of
  \<open>Date.now()\<close>, \<open>t_doc\<close> the one that stamps the new document. Every exception of
  the \<open>try\<close> block ends in the \<open>catch\<close>, which returns a result.\<close>

definition generateRecommendation ::
    "'c AiService \<Rightarrow> int \<Rightarrow> int \<Rightarrow> int \<Rightarrow> 'c Recommendation list \<Rightarrow> GenerateRecommendationDto
       \<Rightarrow> 'c Recommendation list \<times> 'c RecommendationGeneratedResponseDto" where
  "generateRecommendation aiService t_start t_doc t_end store dto =
     (let failure = (\<lambda>e. \<lparr>success = False,
                          message = (if exc_message e = [] then ''Failed to generate recommendation''
                                     else exc_message e),
                          data = None,
                          processingTimeMs = t_end - t_start\<rparr>)
      in case ai_generateRecommendation aiService (gen_classification dto) (gen_confidence dto)
                (gen_additionalContext dto) of
           Inl e \<Rightarrow> (store, failure e)
         | Inr c \<Rightarrow>
             (let recommendation =
                    new_Recommendation (fresh_id store) t_doc (gen_sessionId dto)
                      (gen_classification dto) (gen_confidence dto) c
                      (ai_constructor_name aiService) currentPromptVersion
              in case save_new store recommendation of
                   Inl e \<Rightarrow> (store, failure e)
                 | Inr store' \<Rightarrow>
                     (store',
                      \<lparr>success = True,
                       message = ''Recommendation generated successfully'',
                       data = Some (transformToResponseDto recommendation),
                       processingTimeMs = t_end - t_start\<rparr>)))"










definition submitFeedback ::
    "int \<Rightarrow> 'c Recommendation list \<Rightarrow> FeedbackDto
       \<Rightarrow> exception + 'c Recommendation list \<times> bool \<times> string" where
  "submitFeedback now store feedbackDto =
     (case findById store (recommendationId feedbackDto) of
        None \<Rightarrow>
          Inl (NotFoundException
                 (''Recommendation with ID '' @ decimal (recommendationId feedbackDto)
                  @ '' not found''))
      | Some recommendation \<Rightarrow>
          (let r1 = recommendation\<lparr>userRating := Some (rating feedbackDto)\<rparr>;
               r2 = (if truthy_str (feedback feedbackDto)
                     then r1\<lparr>userFeedback := feedback feedbackDto\<rparr> else r1);
               r3 = r2\<lparr>updatedAt := now\<rparr>
           in case save_loaded store r3 of
                Inl e \<Rightarrow> Inl (BadRequestException ''Failed to submit feedback'')
              | Inr store' \<Rightarrow> Inr (store', True, ''Feedback submitted successfully'')))"

text \<open>\<open>getAverageRating\<close>: \<open>$match\<close> keeps the documents whose \<open>userRating\<close> exists and is
  not null, \<open>$group\<close> averages them; no matching document gives \<open>null\<close>.\<close>

definition getAverageRating :: "'c Recommendation list \<Rightarrow> real option" where
  "getAverageRating store =
     (let matched = filter (\<lambda>r. userRating r \<noteq> None) store
      in if matched = [] then None
         else Some (sum_list (map (\<lambda>r. the (userRating r)) matched) / real (length matched)))"


section \<open>The retry schedule as the specification describes it\<close>

text \<open>Attempts \<open>a\<close>, ..., \<open>k\<close>, with a wait of \<open>2 ^ i\<close> seconds after each failed attempt
  \<open>i < k\<close> (2s, 4s, 8s, ... from the first attempt on) and nothing after attempt \<open>k\<close>.\<close>

definition backoff_schedule_from :: "nat \<Rightarrow> nat \<Rightarrow> event list" where
  "backoff_schedule_from a k = concat (map (\<lambda>i. [Post i, Sleep (2 ^ i * 1000)]) [a ..< k]) @ [Post k]"


section \<open>Observations used to state the properties\<close>

text \<open>Whether the proxy obtains a prediction in the environment of one call, and the
  collection as it is after a call of \<open>submitFeedback\<close>, whether it returned or threw.\<close>

definition classification_succeeds :: "int \<Rightarrow> CallEnv \<Rightarrow> bool" where
  "classification_succeeds maxRetries env =
     (case snd (makeRequestWithRetry (http env) (isoTime env) maxRetries) of
        Inr (Some r) \<Rightarrow> True
      | Inr None \<Rightarrow> False
      | Inl e \<Rightarrow> False)"

definition store_after_feedback ::
    "int \<Rightarrow> 'c Recommendation list \<Rightarrow> FeedbackDto \<Rightarrow> 'c Recommendation list" where
  "store_after_feedback now store feedbackDto =
     (case submitFeedback now store feedbackDto of
        Inl e \<Rightarrow> store
      | Inr (store', ok, msg) \<Rightarrow> store')"


section \<open>Concrete inputs\<close>

definition example_prediction :: "string \<Rightarrow> real \<Rightarrow> PythonPrediction" where
  "example_prediction st c =
     \<lparr>pred_confidence = c,
      pred_file_size = 204800,
      pred_filename = ''leaf.jpg'',
      pred_health_status = st,
      pred_interpretation = '''',
      pred_result = st,
      pred_status = st,
      pred_threshold = 0.5\<rparr>"

definition example_time :: string where
  "example_time = ''2024-01-15T10:30:00.000Z''"

definition ok_response :: PythonApiResponse where
  "ok_response =
     \<lparr>api_success = True,
      api_prediction = Some (example_prediction ''healthy'' 0.9),
      api_error = None,
      api_message = None\<rparr>"

definition flaky_http :: "nat \<Rightarrow> http_outcome" where
  "flaky_http n = (if n < 3 then HttpFailure ''timeout of 30000ms exceeded'' else HttpResponse ok_response)"

definition down_http :: "nat \<Rightarrow> http_outcome" where
  "down_http n = HttpFailure ''connect ECONNREFUSED 127.0.0.1:5000''"

definition down_env :: CallEnv where
  "down_env = \<lparr>http = down_http, isoTime = example_time, startTime = 1705314600000, endTime = 1705314606050\<rparr>"

definition flaky_env :: CallEnv where
  "flaky_env = \<lparr>http = flaky_http, isoTime = example_time, startTime = 1705314600000, endTime = 1705314606050\<rparr>"



definition rate_limited_ai :: "ParsedContent AiService" where
  "rate_limited_ai =
     OpenaiService (\<lambda>content. None) (ApiRejected (Some 429) ''Request failed with status code 429'')"

definition example_generate_dto :: "string \<Rightarrow> GenerateRecommendationDto" where
  "example_generate_dto sid =
     \<lparr>gen_classification = ''angular_leaf_spot'',
      gen_confidence = 0.9,
      gen_sessionId = sid,
      gen_additionalContext = None\<rparr>"

definition three_generated :: "RecommendationContent Recommendation list" where
  "three_generated =
     fst (generateRecommendation MockOpenaiService 1705314600000 1705314601500 1705314601510
       (fst (generateRecommendation MockOpenaiService 1705314500000 1705314501500 1705314501510
         (fst (generateRecommendation MockOpenaiService 1705314400000 1705314401500 1705314401510
            [] (example_generate_dto ''sess_1'')))
         (example_generate_dto ''sess_2'')))
       (example_generate_dto ''sess_3''))"

definition two_of_three_rated :: "RecommendationContent Recommendation list" where
  "two_of_three_rated =
     store_after_feedback 1705314800000
       (store_after_feedback 1705314700000 three_generated
          \<lparr>recommendationId = 0, rating = 4, feedback = None\<rparr>)
       \<lparr>recommendationId = 1, rating = 5, feedback = Some ''Very helpful recommendations''\<rparr>"



definition example_batch :: "MulterFile list" where
  "example_batch =
     [\<lparr>originalname = ''leaf_a.jpg'', mimetype = ''image/jpeg'', fsize = 204800,
       path = Some ''temp-uploads/images-1705314600000-a.jpg''\<rparr>,
      \<lparr>originalname = ''leaf_b.png'', mimetype = ''image/png'', fsize = 512000,
       path = Some ''temp-uploads/images-1705314600000-b.png''\<rparr>,
      \<lparr>originalname = ''leaf_c.webp'', mimetype = ''image/webp'', fsize = 100000,
       path = Some ''temp-uploads/images-1705314600000-c.webp''\<rparr>]"

definition example_batch_disk :: Disk where
  "example_batch_disk =
     \<lparr>files = {''temp-uploads/images-1705314600000-a.jpg'',
               ''temp-uploads/images-1705314600000-b.png'',
               ''temp-uploads/images-1705314600000-c.webp''},
      unlinked = []\<rparr>"

definition example_envs :: "nat \<Rightarrow> CallEnv" where
  "example_envs i = (if i = 1 then down_env else flaky_env)"

text \<open>A response of the external model whose severity is not one of the three enumerated
  values, used to run the validation on a concrete input.\<close>

definition example_invalid_severity_response :: ParsedContent where
  "example_invalid_severity_response =
     \<lparr>resp_disease = Some ''Angular Leaf Spot'',
      resp_confidence = Some 0.95,
      resp_severity = Some ''critical'',
      resp_immediateActions = Some [''Isolate affected plants immediately''],
      resp_treatmentSteps = None,
      resp_preventionMeasures = None,
      resp_additionalNotes = None,
      resp_sourceReliability = None,
      resp_estimatedRecoveryTime = None\<rparr>"

definition example_delegated_store :: "ParsedContent Recommendation list" where
  "example_delegated_store =
     [new_Recommendation 0 1705314401500 ''sess_1'' ''angular_leaf_spot'' 0.9
        example_invalid_severity_response ''OpenaiService'' currentPromptVersion]"



section \<open>Properties of the generators\<close>

lemma angular_leaf_spot_not_healthy: "\<not> isHealthy ''angular_leaf_spot''"
  by (simp add: isHealthy_def toLowerCase_def toLowerChar_def)

lemma healthy_label_is_healthy: "isHealthy ''healthy''"
  by (simp add: isHealthy_def toLowerCase_def toLowerChar_def)

text \<open>The test is a substring test: the label \<open>unhealthy\<close> contains \<open>healthy\<close> and takes
  the healthy branch.\<close>

lemma unhealthy_label_is_healthy: "isHealthy ''unhealthy''"
  by (simp add: isHealthy_def toLowerCase_def toLowerChar_def)

lemma mock_generateRecommendation_succeeds:
  "mock_generateRecommendation classification c ctx =
     Inr (generateMockRecommendation classification c ctx)"
  by (simp add: mock_generateRecommendation_def)

lemma validate_keeps_valid_severity:
  assumes "validateAndEnhanceResponse r classification c = Inr r'"
    and "resp_severity r = Some s" and "s \<in> set severity_enum"
  shows "resp_severity r' = Some s"
  using assms
  by (auto simp: validateAndEnhanceResponse_def Let_def split: if_splits)

text \<open>On the branch for a classification that the test does not take for healthy, the
  severity is \<open>moderate\<close> exactly when the confidence exceeds 0.8, \<open>mild\<close> exactly when
  it lies in (0.6, 0.8], and \<open>severe\<close> exactly when it is at most 0.6.\<close>

lemma templated_severity_thresholds:
  assumes "\<not> isHealthy classification"
  shows "(severity (generateMockRecommendation classification c ctx) = ''moderate'' \<longleftrightarrow> c > 0.8)
       \<and> (severity (generateMockRecommendation classification c ctx) = ''mild''
            \<longleftrightarrow> 0.6 < c \<and> c \<le> 0.8)
       \<and> (severity (generateMockRecommendation classification c ctx) = ''severe''
            \<longleftrightarrow> c \<le> 0.6)"
  using assms by (simp add: generateMockRecommendation_def Let_def)

lemma templated_severity_thresholds_angular_leaf_spot:
  "\<not> isHealthy ''angular_leaf_spot''
   \<and> severity (generateMockRecommendation ''angular_leaf_spot'' 0.9 None) = ''moderate''
   \<and> severity (generateMockRecommendation ''angular_leaf_spot'' 0.7 None) = ''mild''
   \<and> severity (generateMockRecommendation ''angular_leaf_spot'' 0.6 None) = ''severe''"
  using templated_severity_thresholds [OF angular_leaf_spot_not_healthy, of "0.9" None]
        templated_severity_thresholds [OF angular_leaf_spot_not_healthy, of "0.7" None]
        templated_severity_thresholds [OF angular_leaf_spot_not_healthy, of "0.6" None]
        angular_leaf_spot_not_healthy
  by simp

text \<open>
  C6. The claim holds for the labels that do not contain \<open>healthy\<close> (the lemma above),
  and fails for an unhealthy classification whose label contains it: for the label
  \<open>unhealthy\<close> the generator answers for a healthy plant, with severity \<open>mild\<close> at
  confidence 0.9, where the thresholds give \<open>moderate\<close>, and at 0.5, where they give
  \<open>severe\<close>.
\<close>

theorem templated_severity_unhealthy_label:
  "isHealthy ''unhealthy''
   \<and> disease (generateMockRecommendation ''unhealthy'' 0.9 None) = ''Healthy Plant''
   \<and> severity (generateMockRecommendation ''unhealthy'' 0.9 None) = ''mild''
   \<and> severity (generateMockRecommendation ''unhealthy'' 0.5 None) = ''mild''"
  by (simp add: generateMockRecommendation_def unhealthy_label_is_healthy)

text \<open>
  C3 as stated fails: for a response with the severity \<open>critical\<close> and a classification
  confidence of 0.5, the delegated generator coerces the severity to \<open>mild\<close>, where the
  templated generator's rule gives \<open>severe\<close>.
\<close>

theorem delegated_coercion_counterexample:
  "map_sum exc_message resp_severity
     (validateAndEnhanceResponse example_invalid_severity_response ''angular_leaf_spot'' 0.5)
     = Inr (Some ''mild'')
   \<and> severity (generateMockRecommendation ''angular_leaf_spot'' 0.5 None) = ''severe''"
  by (simp add: validateAndEnhanceResponse_def example_invalid_severity_response_def
        truthy_str_def truthy_num_def severity_enum_def Let_def
        generateMockRecommendation_def angular_leaf_spot_not_healthy)

text \<open>
  C3 amended. When the parsed response has the required fields and its severity is a
  non-empty string outside \<open>mild\<close>, \<open>moderate\<close>, \<open>severe\<close>, the validation succeeds and
  the severity becomes \<open>moderate\<close> if the classification confidence exceeds 0.8 and
  \<open>mild\<close> otherwise; it is never coerced to \<open>severe\<close>.
\<close>

theorem delegated_invalid_severity_coercion:
  assumes "truthy_str (resp_disease r)"
    and "resp_immediateActions r \<noteq> None"
    and "resp_severity r = Some s" and "s \<noteq> []" and "s \<notin> set severity_enum"
  shows "\<exists>r'. validateAndEnhanceResponse r classification c = Inr r'
            \<and> resp_severity r' = Some (if c > 0.8 then ''moderate'' else ''mild'')"
  using assms
  by (simp add: validateAndEnhanceResponse_def Let_def truthy_str_def)

theorem delegated_invalid_severity_coercion_witness:
  "truthy_str (resp_disease example_invalid_severity_response)
   \<and> resp_immediateActions example_invalid_severity_response \<noteq> None
   \<and> resp_severity example_invalid_severity_response = Some ''critical''
   \<and> ''critical'' \<noteq> [] \<and> ''critical'' \<notin> set severity_enum
   \<and> (\<exists>r'. validateAndEnhanceResponse example_invalid_severity_response ''angular_leaf_spot'' 0.9
              = Inr r'
            \<and> resp_severity r' = Some ''moderate'')"
proof -
  have h1: "truthy_str (resp_disease example_invalid_severity_response)"
    by (simp add: example_invalid_severity_response_def truthy_str_def)
  have h2: "resp_immediateActions example_invalid_severity_response \<noteq> None"
    by (simp add: example_invalid_severity_response_def)
  have h3: "resp_severity example_invalid_severity_response = Some ''critical''"
    by (simp add: example_invalid_severity_response_def)
  have h4: "''critical'' \<noteq> []" by simp
  have h5: "''critical'' \<notin> set severity_enum" by (simp add: severity_enum_def)
  show ?thesis
    using delegated_invalid_severity_coercion [OF h1 h2 h3 h4 h5, of "''angular_leaf_spot''" "0.9"]
          h1 h2 h3 h5
    by simp
qed

text \<open>For a confidence c in [0,1] the templated content's confidence is min(c + 0.05, 1)
  on the healthy branch and min(c + 0.1, 1) otherwise; it lies in [0,1] and is strictly
  above c whenever c < 1. The delegated generator's validation, when it succeeds, returns
  a confidence that is at most c.\<close>

lemma templated_confidence_boost:
  assumes "0 \<le> c" and "c \<le> 1"
  shows "confidence (generateMockRecommendation classification c ctx)
           = (if isHealthy classification then min (c + 0.05) 1.0 else min (c + 0.1) 1.0)
       \<and> 0 \<le> confidence (generateMockRecommendation classification c ctx)
       \<and> confidence (generateMockRecommendation classification c ctx) \<le> 1
       \<and> (c < 1 \<longrightarrow> c < confidence (generateMockRecommendation classification c ctx))
       \<and> (validateAndEnhanceResponse r classification c = Inr r'
            \<longrightarrow> (\<exists>v. resp_confidence r' = Some v \<and> v \<le> c))"
  using assms
  by (auto simp: generateMockRecommendation_def validateAndEnhanceResponse_def Let_def
           split: if_splits)

lemma templated_confidence_boost_angular_leaf_spot:
  "(0::real) \<le> 0.7 \<and> (0.7::real) \<le> 1 \<and> (0.7::real) < 1
   \<and> confidence (generateMockRecommendation ''angular_leaf_spot'' 0.7 None) = 0.8
   \<and> 0.7 < confidence (generateMockRecommendation ''angular_leaf_spot'' 0.7 None)
   \<and> (\<exists>r' v. validateAndEnhanceResponse example_invalid_severity_response
                  ''angular_leaf_spot'' 0.7 = Inr r'
              \<and> resp_confidence r' = Some v \<and> v \<le> 0.7)"
proof -
  have h0: "(0::real) \<le> 0.7" and h1: "(0.7::real) \<le> 1" by simp_all
  obtain r' where v: "validateAndEnhanceResponse example_invalid_severity_response
                        ''angular_leaf_spot'' 0.7 = Inr r'"
    by (simp add: validateAndEnhanceResponse_def example_invalid_severity_response_def
          truthy_str_def Let_def)
  note t = templated_confidence_boost [OF h0 h1, of "''angular_leaf_spot''" None
             example_invalid_severity_response r']
  from t v have d: "\<exists>v. resp_confidence r' = Some v \<and> v \<le> 0.7" by blast
  from t have b: "confidence (generateMockRecommendation ''angular_leaf_spot'' 0.7 None) = 0.8"
    by (simp add: angular_leaf_spot_not_healthy)
  from t have e: "0.7 < confidence (generateMockRecommendation ''angular_leaf_spot'' 0.7 None)"
    by simp
  show ?thesis using b e v d by auto
qed

text \<open>
  C10. The claim holds with the branches chosen by the generator's test (the lemma above),
  and fails for an unhealthy classification whose label contains \<open>healthy\<close>: for the
  label \<open>unhealthy\<close> and the confidence 0.5 the content's confidence is
  min(0.5 + 0.05, 1) = 0.55, not min(0.5 + 0.1, 1).
\<close>

theorem templated_confidence_unhealthy_label:
  "confidence (generateMockRecommendation ''unhealthy'' 0.5 None) = 0.55
   \<and> confidence (generateMockRecommendation ''unhealthy'' 0.5 None) \<noteq> min (0.5 + 0.1) 1.0"
  by (simp add: generateMockRecommendation_def unhealthy_label_is_healthy)

section \<open>Properties of the classifier proxy\<close>

lemma backoff_schedule_from_step:
  "a < k \<Longrightarrow> backoff_schedule_from a k = [Post a, Sleep (2 ^ a * 1000)] @ backoff_schedule_from (Suc a) k"
  by (simp add: backoff_schedule_from_def upt_conv_Cons)

lemma retry_from_success:
  assumes "a \<le> k" and "int k \<le> retries"
    and "\<forall>i. a \<le> i \<and> i < k \<longrightarrow> isl (attempt_result t (h i))"
    and "attempt_result t (h k) = Inr r"
  shows "makeRequestWithRetry_from h t retries a tr = (tr @ backoff_schedule_from a k, Inr (Some r))"
  using assms
proof (induction "k - a" arbitrary: a tr)
  case 0
  then have "a = k" by simp
  with 0 show ?case by (simp add: backoff_schedule_from_def)
next
  case (Suc n)
  then have lt: "a < k" by simp
  with Suc.prems have f: "isl (attempt_result t (h a))" by simp
  then obtain e where e: "attempt_result t (h a) = Inl e" by (cases "attempt_result t (h a)") auto
  have ne: "int a \<noteq> retries" and le: "int a \<le> retries" using lt Suc.prems by auto
  have "makeRequestWithRetry_from h t retries (Suc a) (tr @ [Post a, Sleep (2 ^ a * 1000)])
        = ((tr @ [Post a, Sleep (2 ^ a * 1000)]) @ backoff_schedule_from (Suc a) k, Inr (Some r))"
    using Suc.hyps(1)[of "Suc a"] Suc.hyps(2) Suc.prems lt by (intro Suc.hyps(1)) auto
  then show ?case using e ne le lt by (simp add: backoff_schedule_from_step)
qed

lemma retry_from_exhausted:
  assumes "a \<le> n" and "retries = int n"
    and "\<forall>i. a \<le> i \<and> i \<le> n \<longrightarrow> isl (attempt_result t (h i))"
    and "attempt_result t (h n) = Inl e"
  shows "makeRequestWithRetry_from h t retries a tr = (tr @ backoff_schedule_from a n, Inl e)"
  using assms
proof (induction "n - a" arbitrary: a tr)
  case 0
  then have "a = n" by simp
  with 0 show ?case by (simp add: backoff_schedule_from_def)
next
  case (Suc m)
  then have lt: "a < n" by simp
  with Suc.prems have f: "isl (attempt_result t (h a))" by simp
  then obtain e' where e: "attempt_result t (h a) = Inl e'" by (cases "attempt_result t (h a)") auto
  have ne: "int a \<noteq> retries" and le: "int a \<le> retries" using lt Suc.prems by auto
  have "makeRequestWithRetry_from h t retries (Suc a) (tr @ [Post a, Sleep (2 ^ a * 1000)])
        = ((tr @ [Post a, Sleep (2 ^ a * 1000)]) @ backoff_schedule_from (Suc a) n, Inl e)"
    using Suc.hyps(2) Suc.prems lt by (intro Suc.hyps(1)) auto
  then show ?case using e ne le lt by (simp add: backoff_schedule_from_step)
qed

lemma retry_from_error_only_when_exhausted:
  "snd (makeRequestWithRetry_from h t retries a tr) = Inl e \<Longrightarrow>
   a \<le> i \<Longrightarrow> int i \<le> retries \<Longrightarrow> isl (attempt_result t (h i))"
proof (induction h t retries a tr rule: makeRequestWithRetry_from.induct)
  case (1 h t retries attempt tr)
  show ?case
  proof (cases "attempt_result t (h attempt)")
    case (Inr r)
    with 1 show ?thesis by (simp split: if_splits)
  next
    case (Inl e')
    show ?thesis
    proof (cases "i = attempt")
      case True
      with Inl show ?thesis by simp
    next
      case False
      with "1.prems" have "Suc attempt \<le> i" by simp
      moreover have "int attempt \<le> retries" "int attempt \<noteq> retries" using "1.prems" False by auto
      ultimately show ?thesis using 1 Inl by simp
    qed
  qed
qed

lemma retry_from_posts_bounded:
  "length (filter is_Post (fst (makeRequestWithRetry_from h t retries a tr)))
     \<le> length (filter is_Post tr) + nat (retries + 1 - int a)"
proof (induction h t retries a tr rule: makeRequestWithRetry_from.induct)
  case (1 h t retries attempt tr)
  show ?case
  proof (cases "int attempt \<le> retries")
    case False
    then show ?thesis by simp
  next
    case le: True
    show ?thesis
    proof (cases "attempt_result t (h attempt)")
      case (Inr r)
      with le show ?thesis by simp
    next
      case (Inl e)
      show ?thesis
      proof (cases "int attempt = retries")
        case True
        with Inl le show ?thesis by simp
      next
        case False
        with 1 Inl le have "length (filter is_Post (fst (makeRequestWithRetry_from h t retries (Suc attempt) (tr @ [Post attempt, Sleep (2 ^ attempt * 1000)]))))
     \<le> length (filter is_Post (tr @ [Post attempt, Sleep (2 ^ attempt * 1000)])) + nat (retries + 1 - int (Suc attempt))" by simp
        with Inl le False show ?thesis by simp
      qed
    qed
  qed
qed

lemma classification_succeeds_iff:
  "classification_succeeds maxRetries env
     \<longleftrightarrow> \<not> isl (snd (MlModelService_classifyImage maxRetries env d imagePath))"
  by (simp add: classification_succeeds_def MlModelService_classifyImage_def
           split: sum.splits option.splits)

lemma classifyImage_failure_message:
  "snd (MlModelService_classifyImage maxRetries env d imagePath) = Inl e
   \<Longrightarrow> exc_message e = ''Failed to classify image''"
  by (auto simp: MlModelService_classifyImage_def split: sum.splits option.splits)

lemma flaky_env_succeeds: "classification_succeeds 3 flaky_env"
proof -
  have "makeRequestWithRetry_from flaky_http example_time 3 1 []
          = ([] @ backoff_schedule_from 1 3,
             Inr (Some (transformPythonResponse example_time (example_prediction ''healthy'' 0.9))))"
    by (intro retry_from_success)
       (simp_all add: attempt_result_def flaky_http_def ok_response_def)
  then show ?thesis
    by (simp add: classification_succeeds_def makeRequestWithRetry_def flaky_env_def)
qed

lemma down_env_fails: "\<not> classification_succeeds 3 down_env"
proof -
  have "makeRequestWithRetry_from down_http example_time 3 1 []
          = ([] @ backoff_schedule_from 1 3, Inl (Error ''connect ECONNREFUSED 127.0.0.1:5000''))"
    by (intro retry_from_exhausted)
       (simp_all add: attempt_result_def down_http_def)
  then show ?thesis
    by (simp add: classification_succeeds_def makeRequestWithRetry_def down_env_def)
qed

lemma transformPythonResponse_two_class:
  assumes "pred_status p = ''healthy'' \<or> pred_status p = ''unhealthy''"
  shows "probabilities (transformPythonResponse t p) =
           [(''healthy'', if pred_status p = ''healthy'' then pred_confidence p else 1 - pred_confidence p),
            (''angular_leaf_spot'', if pred_status p = ''healthy'' then 1 - pred_confidence p else pred_confidence p)]"
    and "map_of (probabilities (transformPythonResponse t p)) (predicted_class (transformPythonResponse t p))
           = Some (pred_confidence p)"
    and "sum_list (map snd (probabilities (transformPythonResponse t p))) = 1"
  using assms by (auto simp: transformPythonResponse_def)

lemma transformPythonResponse_healthy_example:
  "predicted_class (transformPythonResponse t (example_prediction ''healthy'' 0.9)) = ''healthy''
   \<and> probabilities (transformPythonResponse t (example_prediction ''healthy'' 0.9))
       = [(''healthy'', 0.9), (''angular_leaf_spot'', 0.1)]"
  by (simp add: transformPythonResponse_def example_prediction_def)

text \<open>
  C4. The claim holds for the statuses \<open>healthy\<close> and \<open>unhealthy\<close> (the two lemmas
  above), and fails for every other status: the predicted class is then
  \<open>angular_leaf_spot\<close> with the reported confidence 0.9, yet both classes receive
  1 - 0.9, so the class matching the status does not get the confidence and the
  probabilities do not sum to 1.
\<close>

theorem transformPythonResponse_unrecognised_status:
  "predicted_class (transformPythonResponse example_time (example_prediction ''diseased'' 0.9))
     = ''angular_leaf_spot''
   \<and> ml_confidence (transformPythonResponse example_time (example_prediction ''diseased'' 0.9)) = 0.9
   \<and> probabilities (transformPythonResponse example_time (example_prediction ''diseased'' 0.9))
       = [(''healthy'', 0.1), (''angular_leaf_spot'', 0.1)]"
  by (simp add: transformPythonResponse_def example_prediction_def)

text \<open>
  C5 as stated fails: at the default maximum of 3, with every attempt failing, the proxy
  posts three times, that is the first attempt and two retries, waits 2s and 4s, and
  throws after the second retry. There is no third retry and no wait of 8s: the trace is
  not the schedule of four attempts.
\<close>

theorem retries_at_default_counterexample:
  "ml_maxRetries None = 3
   \<and> makeRequestWithRetry down_http example_time (ml_maxRetries None)
       = ([Post 1, Sleep 2000, Post 2, Sleep 4000, Post 3],
          Inl (Error ''connect ECONNREFUSED 127.0.0.1:5000''))
   \<and> length (filter is_Post (fst (makeRequestWithRetry down_http example_time (ml_maxRetries None))))
       = 3
   \<and> Sleep 8000 \<notin> set (fst (makeRequestWithRetry down_http example_time (ml_maxRetries None)))
   \<and> fst (makeRequestWithRetry down_http example_time (ml_maxRetries None))
       \<noteq> backoff_schedule_from 1 4"
proof -
  have m: "ml_maxRetries None = 3" by (simp add: ml_maxRetries_def parseInt_or_def)
  have "makeRequestWithRetry_from down_http example_time 3 1 []
          = ([] @ backoff_schedule_from 1 3, Inl (Error ''connect ECONNREFUSED 127.0.0.1:5000''))"
    by (intro retry_from_exhausted) (simp_all add: attempt_result_def down_http_def)
  moreover have "backoff_schedule_from 1 3 = [Post 1, Sleep 2000, Post 2, Sleep 4000, Post 3]"
    by (simp add: backoff_schedule_from_def upt_rec)
  moreover have "backoff_schedule_from 1 4
                   = [Post 1, Sleep 2000, Post 2, Sleep 4000, Post 3, Sleep 8000, Post 4]"
    by (simp add: backoff_schedule_from_def upt_rec)
  ultimately show ?thesis using m by (simp add: makeRequestWithRetry_def)
qed

text \<open>
  C5 amended. The configured maximum (default 3) bounds the attempts, the first one
  included. If attempt \<open>k\<close> is the first to succeed, with \<open>k\<close> at most the maximum, the
  proxy posts attempts 1 to \<open>k\<close>, waits \<open>2 ^ i\<close> seconds after each failed attempt \<open>i\<close>,
  returns the result of attempt \<open>k\<close> and does nothing after it. If all attempts up to the
  maximum fail, it posts exactly that many attempts with the same waits between them and
  throws the error of the last one. It throws only in that case, and it never posts more
  attempts than the maximum.
\<close>

theorem retry_with_exponential_backoff:
  "ml_maxRetries None = 3
   \<and> (1 \<le> k \<and> int k \<le> retries
        \<and> (\<forall>i. 1 \<le> i \<and> i < k \<longrightarrow> isl (attempt_result t (h i)))
        \<and> attempt_result t (h k) = Inr r
      \<longrightarrow> makeRequestWithRetry h t retries = (backoff_schedule_from 1 k, Inr (Some r)))
   \<and> (1 \<le> retries \<and> (\<forall>i. 1 \<le> i \<and> int i \<le> retries \<longrightarrow> isl (attempt_result t (h i)))
      \<longrightarrow> (\<exists>e. attempt_result t (h (nat retries)) = Inl e
               \<and> makeRequestWithRetry h t retries = (backoff_schedule_from 1 (nat retries), Inl e)))
   \<and> (snd (makeRequestWithRetry h t retries) = Inl e'
      \<longrightarrow> 1 \<le> retries \<and> (\<forall>i. 1 \<le> i \<and> int i \<le> retries \<longrightarrow> isl (attempt_result t (h i))))
   \<and> length (filter is_Post (fst (makeRequestWithRetry h t retries))) \<le> nat retries"
proof -
  have c1: "ml_maxRetries None = 3"
    by (simp add: ml_maxRetries_def parseInt_or_def)
  have c2: "makeRequestWithRetry h t retries = (backoff_schedule_from 1 k, Inr (Some r))"
    if "1 \<le> k" "int k \<le> retries" "\<forall>i. 1 \<le> i \<and> i < k \<longrightarrow> isl (attempt_result t (h i))"
       "attempt_result t (h k) = Inr r"
    using retry_from_success [OF that, of "[]"] by (simp add: makeRequestWithRetry_def)
  have c3: "\<exists>e. attempt_result t (h (nat retries)) = Inl e
               \<and> makeRequestWithRetry h t retries = (backoff_schedule_from 1 (nat retries), Inl e)"
    if r1: "1 \<le> retries" and all: "\<forall>i. 1 \<le> i \<and> int i \<le> retries \<longrightarrow> isl (attempt_result t (h i))"
  proof -
    from r1 all have "isl (attempt_result t (h (nat retries)))" by simp
    then obtain e where e: "attempt_result t (h (nat retries)) = Inl e"
      by (cases "attempt_result t (h (nat retries))") auto
    have "makeRequestWithRetry_from h t retries 1 [] = ([] @ backoff_schedule_from 1 (nat retries), Inl e)"
      using r1 all e by (intro retry_from_exhausted) auto
    with e show ?thesis by (simp add: makeRequestWithRetry_def)
  qed
  have c4: "1 \<le> retries \<and> (\<forall>i. 1 \<le> i \<and> int i \<le> retries \<longrightarrow> isl (attempt_result t (h i)))"
    if err: "snd (makeRequestWithRetry h t retries) = Inl e'"
  proof
    show "1 \<le> retries"
    proof (rule ccontr)
      assume "\<not> 1 \<le> retries"
      then have "makeRequestWithRetry h t retries = ([], Inr None)"
        by (simp add: makeRequestWithRetry_def)
      with err show False by simp
    qed
    from err have err': "snd (makeRequestWithRetry_from h t retries 1 []) = Inl e'"
      by (simp only: makeRequestWithRetry_def)
    show "\<forall>i. 1 \<le> i \<and> int i \<le> retries \<longrightarrow> isl (attempt_result t (h i))"
      using retry_from_error_only_when_exhausted [OF err'] by blast
  qed
  have c5: "length (filter is_Post (fst (makeRequestWithRetry h t retries))) \<le> nat retries"
    using retry_from_posts_bounded [of h t retries 1 "[]"] by (simp add: makeRequestWithRetry_def)
  from c1 c2 c3 c4 c5 show ?thesis by blast
qed

theorem retry_with_exponential_backoff_witness:
  "(1::nat) \<le> 3 \<and> int 3 \<le> 3
   \<and> isl (attempt_result example_time (flaky_http 1))
   \<and> isl (attempt_result example_time (flaky_http 2))
   \<and> attempt_result example_time (flaky_http 3)
       = Inr (transformPythonResponse example_time (example_prediction ''healthy'' 0.9))
   \<and> makeRequestWithRetry flaky_http example_time 3
       = ([Post 1, Sleep 2000, Post 2, Sleep 4000, Post 3],
          Inr (Some (transformPythonResponse example_time (example_prediction ''healthy'' 0.9))))
   \<and> isl (attempt_result example_time (down_http 1))
   \<and> isl (attempt_result example_time (down_http 2))
   \<and> isl (attempt_result example_time (down_http 3))
   \<and> makeRequestWithRetry down_http example_time 3
       = ([Post 1, Sleep 2000, Post 2, Sleep 4000, Post 3],
          Inl (Error ''connect ECONNREFUSED 127.0.0.1:5000''))
   \<and> snd (makeRequestWithRetry down_http example_time 3)
       = Inl (Error ''connect ECONNREFUSED 127.0.0.1:5000'')
   \<and> backoff_schedule_from 1 4
       = [Post 1, Sleep 2000, Post 2, Sleep 4000, Post 3, Sleep 8000, Post 4]"
proof -
  let ?r = "transformPythonResponse example_time (example_prediction ''healthy'' 0.9)"
  have f1: "\<forall>i. 1 \<le> i \<and> i < 3 \<longrightarrow> isl (attempt_result example_time (flaky_http i))"
    by (simp add: attempt_result_def flaky_http_def)
  have f2: "attempt_result example_time (flaky_http 3) = Inr ?r"
    by (simp add: attempt_result_def flaky_http_def ok_response_def)
  have d1: "\<forall>i. 1 \<le> i \<and> int i \<le> 3 \<longrightarrow> isl (attempt_result example_time (down_http i))"
    by (simp add: attempt_result_def down_http_def)
  have s3: "backoff_schedule_from 1 3 = [Post 1, Sleep 2000, Post 2, Sleep 4000, Post 3]"
    by (simp add: backoff_schedule_from_def upt_rec)
  have s4: "backoff_schedule_from 1 4 = [Post 1, Sleep 2000, Post 2, Sleep 4000, Post 3, Sleep 8000, Post 4]"
    by (simp add: backoff_schedule_from_def upt_rec)
  note a = retry_with_exponential_backoff [of 3 3 example_time flaky_http ?r]
  note b = retry_with_exponential_backoff [of 3 3 example_time down_http]
  have a': "makeRequestWithRetry flaky_http example_time 3 = (backoff_schedule_from 1 3, Inr (Some ?r))"
    using a f1 f2 by simp
  have b': "makeRequestWithRetry down_http example_time 3
              = (backoff_schedule_from 1 3, Inl (Error ''connect ECONNREFUSED 127.0.0.1:5000''))"
    using b d1 by (simp add: attempt_result_def down_http_def)
  show ?thesis using f1 f2 d1 a' b' s3 s4 by simp
qed

section \<open>Properties of upload handling and of the temporary file\<close>

lemma cleanupFile_present:
  "p \<in> files d \<Longrightarrow> cleanupFile d p = d\<lparr>files := files d - {p}, unlinked := unlinked d @ [p]\<rparr>"
  by (simp add: cleanupFile_def)

lemma cleanupFile_twice: "cleanupFile (cleanupFile d p) p = cleanupFile d p"
  by (simp add: cleanupFile_def)

lemma MlModelService_classifyImage_disk:
  "fst (MlModelService_classifyImage maxRetries env d imagePath) = cleanupFile d imagePath"
  by (simp add: MlModelService_classifyImage_def cleanupFile_twice split: sum.splits option.splits)

lemma MlModelService_classifyImage_deletes_once:
  assumes "imagePath \<in> files d"
  shows "files (fst (MlModelService_classifyImage maxRetries env d imagePath)) = files d - {imagePath}"
    and "unlinked (fst (MlModelService_classifyImage maxRetries env d imagePath))
           = unlinked d @ [imagePath]"
  using assms by (simp_all add: MlModelService_classifyImage_disk cleanupFile_present)


lemma classifyImage_rejected_file_kept:
  assumes "validateFile allowed maxSize (Some f) = Inl e"
  shows "ImageClassificationService_classifyImage allowed maxSize maxRetries env d (Some f) = (d, Inl e)"
  using assms by (simp add: ImageClassificationService_classifyImage_def)

lemma default_maxFileSize: "upload_maxFileSize None = 16777216"
  by (simp add: upload_maxFileSize_def parseInt_or_def)








section \<open>Properties of batch classification\<close>

lemma ml_batch_length:
  "length (snd (MlModelService_classifyImagesBatch_from maxRetries envs index d paths)) = length paths"
proof (induction paths arbitrary: index d)
  case Nil
  then show ?case by simp
next
  case (Cons p ps)
  obtain d1 r where c: "MlModelService_classifyImage maxRetries (envs index) d p = (d1, r)"
    by (cases "MlModelService_classifyImage maxRetries (envs index) d p")
  obtain d2 es where b: "MlModelService_classifyImagesBatch_from maxRetries envs (Suc index) d1 ps = (d2, es)"
    by (cases "MlModelService_classifyImagesBatch_from maxRetries envs (Suc index) d1 ps")
  from Cons.IH [of "Suc index" d1] b have "length es = length ps" by simp
  then show ?case using c b by (simp add: Let_def)
qed

lemma ml_batch_nth:
  assumes "j < length paths"
  shows "(classification_succeeds maxRetries (envs (index + j)) \<longrightarrow>
            result (snd (MlModelService_classifyImagesBatch_from maxRetries envs index d paths) ! j) \<noteq> None
            \<and> error (snd (MlModelService_classifyImagesBatch_from maxRetries envs index d paths) ! j) = None)
       \<and> (\<not> classification_succeeds maxRetries (envs (index + j)) \<longrightarrow>
            result (snd (MlModelService_classifyImagesBatch_from maxRetries envs index d paths) ! j) = None
            \<and> error (snd (MlModelService_classifyImagesBatch_from maxRetries envs index d paths) ! j)
                = Some ''Failed to classify image'')"
  using assms
proof (induction paths arbitrary: index d j)
  case Nil
  then show ?case by simp
next
  case (Cons p ps)
  obtain d1 r where c: "MlModelService_classifyImage maxRetries (envs index) d p = (d1, r)"
    by (cases "MlModelService_classifyImage maxRetries (envs index) d p")
  obtain d2 es where b: "MlModelService_classifyImagesBatch_from maxRetries envs (Suc index) d1 ps = (d2, es)"
    by (cases "MlModelService_classifyImagesBatch_from maxRetries envs (Suc index) d1 ps")
  show ?case
  proof (cases j)
    case 0
    have s: "classification_succeeds maxRetries (envs index) \<longleftrightarrow> \<not> isl r"
      using classification_succeeds_iff [of maxRetries "envs index" d p] c by simp
    have m: "\<And>e. r = Inl e \<Longrightarrow> exc_message e = ''Failed to classify image''"
      using classifyImage_failure_message [of maxRetries "envs index" d p] c by simp
    show ?thesis using 0 c b s m by (cases r) (auto simp: Let_def)
  next
    case (Suc j')
    with Cons.prems have "j' < length ps" by simp
    from Cons.IH [OF this, of "Suc index" d1] b Suc c show ?thesis by (simp add: Let_def)
  qed
qed

lemma count_all_but_one:
  assumes "k < length xs" and "\<not> P (xs ! k)" and "\<forall>i < length xs. i \<noteq> k \<longrightarrow> P (xs ! i)"
  shows "length (filter P xs) = length xs - 1"
proof -
  have xs: "xs = take k xs @ xs ! k # drop (Suc k) xs"
    using assms(1) by (simp add: id_take_nth_drop)
  have t: "filter P (take k xs) = take k xs"
    using assms by (auto simp: filter_id_conv in_set_conv_nth)
  have "\<forall>x \<in> set (drop (Suc k) xs). P x"
  proof
    fix x assume "x \<in> set (drop (Suc k) xs)"
    then obtain j where j: "j < length (drop (Suc k) xs)" "x = drop (Suc k) xs ! j"
      by (auto simp: in_set_conv_nth)
    then have "x = xs ! (Suc k + j)" "Suc k + j < length xs" by auto
    with assms(3) show "P x" by auto
  qed
  then have d: "filter P (drop (Suc k) xs) = drop (Suc k) xs"
    by (simp add: filter_id_conv)
  have "length (filter P xs) = length (filter P (take k xs @ xs ! k # drop (Suc k) xs))"
    using xs by simp
  also have "\<dots> = length (take k xs) + length (drop (Suc k) xs)"
    using t d assms(2) by simp
  also have "\<dots> = length xs - 1" using assms(1) by simp
  finally show ?thesis .
qed

lemma example_batch_valid:
  "validateAll upload_allowedMimeTypes (upload_maxFileSize None) example_batch = Inr ()"
  by (simp add: example_batch_def validateFile_def upload_allowedMimeTypes_def
        default_maxFileSize truthy_str_def)

text \<open>
  C8. For a non-empty batch whose files all pass upload validation, in which the
  classifier proxy obtains no prediction for file \<open>k\<close> and obtains one for every other
  file, batch classification returns one entry per file, in order: entry \<open>k\<close> carries
  an error and no result, every other entry carries a result and no error, and the
  summary counts all files, one failure and the rest as successes.
\<close>

theorem batch_isolates_single_failure:
  assumes "fs \<noteq> []" and "validateAll allowed maxSize fs = Inr ()" and "k < length fs"
    and "\<not> classification_succeeds maxRetries (envs k)"
    and "\<forall>i < length fs. i \<noteq> k \<longrightarrow> classification_succeeds maxRetries (envs i)"
  shows "\<exists>d' results summary.
           ImageClassificationService_classifyImagesBatch allowed maxSize maxRetries envs d fs
             = (d', Inr (results, summary))
           \<and> length results = length fs
           \<and> dto_result (results ! k) = None
           \<and> dto_error (results ! k) = Some ''Failed to classify image''
           \<and> (\<forall>i < length fs. i \<noteq> k \<longrightarrow>
                 dto_result (results ! i) \<noteq> None \<and> dto_error (results ! i) = None
                 \<and> dto_filename (results ! i) = originalname (fs ! i))
           \<and> summary = \<lparr>sum_total = length fs, sum_successful = length fs - 1, sum_failed = 1\<rparr>"
proof -
  let ?paths = "map (\<lambda>f. the (path f)) fs"
  obtain d' ml where b: "MlModelService_classifyImagesBatch_from maxRetries envs 0 d ?paths = (d', ml)"
    by (cases "MlModelService_classifyImagesBatch_from maxRetries envs 0 d ?paths")
  have len: "length ml = length fs"
    using ml_batch_length [of maxRetries envs 0 d ?paths] b by simp
  have nth: "\<And>j. j < length fs \<Longrightarrow>
      (classification_succeeds maxRetries (envs j) \<longrightarrow> result (ml ! j) \<noteq> None \<and> error (ml ! j) = None)
      \<and> (\<not> classification_succeeds maxRetries (envs j) \<longrightarrow>
            result (ml ! j) = None \<and> error (ml ! j) = Some ''Failed to classify image'')"
    using ml_batch_nth [of _ ?paths maxRetries envs 0 d] b by simp
  let ?results = "map (\<lambda>(mlResult, index).
                         \<lparr>dto_filename = originalname (fs ! index),
                          dto_result = map_option transformPredictionResult (result mlResult),
                          dto_error = error mlResult\<rparr>)
                      (zip ml [0 ..< length ml])"
  let ?P = "\<lambda>r. dto_result r \<noteq> None \<and> \<not> truthy_str (dto_error r)"
  have rlen: "length ?results = length fs" using len by simp
  have rnth: "\<And>i. i < length fs \<Longrightarrow>
                ?results ! i = \<lparr>dto_filename = originalname (fs ! i),
                                dto_result = map_option transformPredictionResult (result (ml ! i)),
                                dto_error = error (ml ! i)\<rparr>"
    using len by simp
  have rk: "dto_result (?results ! k) = None" "dto_error (?results ! k) = Some ''Failed to classify image''"
    using rnth [OF assms(3)] nth [OF assms(3)] assms(4) by simp_all
  have ri: "\<forall>i < length fs. i \<noteq> k \<longrightarrow>
              dto_result (?results ! i) \<noteq> None \<and> dto_error (?results ! i) = None
              \<and> dto_filename (?results ! i) = originalname (fs ! i)"
  proof (intro allI impI)
    fix i assume i: "i < length fs" "i \<noteq> k"
    with assms(5) have "classification_succeeds maxRetries (envs i)" by simp
    with nth [OF i(1)] rnth [OF i(1)]
    show "dto_result (?results ! i) \<noteq> None \<and> dto_error (?results ! i) = None
          \<and> dto_filename (?results ! i) = originalname (fs ! i)" by simp
  qed
  have nP: "\<not> ?P (?results ! k)" using rk by simp
  have aP: "\<forall>i < length ?results. i \<noteq> k \<longrightarrow> ?P (?results ! i)"
    using ri rlen by (simp add: truthy_str_def)
  have cnt: "length (filter ?P ?results) = length fs - 1"
    using count_all_but_one [of k ?results ?P] nP aP rlen assms(3) by simp
  have pos: "length fs - (length fs - Suc 0) = Suc 0" using assms(1) by (cases fs) simp_all
  have "ImageClassificationService_classifyImagesBatch allowed maxSize maxRetries envs d fs
          = (d', Inr (?results,
                      \<lparr>sum_total = length fs, sum_successful = length fs - 1, sum_failed = 1\<rparr>))"
    using assms(1,2) b cnt rlen pos
    by (simp add: ImageClassificationService_classifyImagesBatch_def
          MlModelService_classifyImagesBatch_def Let_def del: map_map)
  with rlen rk ri show ?thesis by blast
qed


theorem batch_isolates_single_failure_witness:
  "example_batch \<noteq> []
   \<and> validateAll upload_allowedMimeTypes (upload_maxFileSize None) example_batch = Inr ()
   \<and> 1 < length example_batch
   \<and> \<not> classification_succeeds 3 (example_envs 1)
   \<and> length example_batch = 3
   \<and> classification_succeeds 3 (example_envs 0)
   \<and> classification_succeeds 3 (example_envs 2)
   \<and> (\<exists>d' results summary.
         ImageClassificationService_classifyImagesBatch upload_allowedMimeTypes
           (upload_maxFileSize None) 3 example_envs example_batch_disk example_batch
           = (d', Inr (results, summary))
         \<and> length results = 3
         \<and> dto_result (results ! 1) = None
         \<and> dto_error (results ! 1) = Some ''Failed to classify image''
         \<and> dto_result (results ! 0) \<noteq> None \<and> dto_error (results ! 0) = None
         \<and> dto_result (results ! 2) \<noteq> None \<and> dto_error (results ! 2) = None
         \<and> summary = \<lparr>sum_total = 3, sum_successful = 2, sum_failed = 1\<rparr>)"
proof -
  have h1: "example_batch \<noteq> []" by (simp add: example_batch_def)
  have h3: "1 < length example_batch" by (simp add: example_batch_def)
  have len: "length example_batch = 3" by (simp add: example_batch_def)
  have h4: "\<not> classification_succeeds 3 (example_envs 1)"
    by (simp add: example_envs_def down_env_fails)
  have h5: "\<forall>i < length example_batch. i \<noteq> 1 \<longrightarrow> classification_succeeds 3 (example_envs i)"
    by (simp add: example_envs_def flaky_env_succeeds)
  from batch_isolates_single_failure [OF h1 example_batch_valid h3 h4 h5, of example_batch_disk]
  obtain d' results summary where
    r: "ImageClassificationService_classifyImagesBatch upload_allowedMimeTypes
           (upload_maxFileSize None) 3 example_envs example_batch_disk example_batch
           = (d', Inr (results, summary))"
       "length results = length example_batch"
       "dto_result (results ! 1) = None"
       "dto_error (results ! 1) = Some ''Failed to classify image''"
       "\<forall>i < length example_batch. i \<noteq> 1 \<longrightarrow>
                 dto_result (results ! i) \<noteq> None \<and> dto_error (results ! i) = None
                 \<and> dto_filename (results ! i) = originalname (example_batch ! i)"
       "summary = \<lparr>sum_total = length example_batch, sum_successful = length example_batch - 1,
                    sum_failed = 1\<rparr>"
    by blast
  from r(5) len have r0: "dto_result (results ! 0) \<noteq> None \<and> dto_error (results ! 0) = None"
    and r2: "dto_result (results ! 2) \<noteq> None \<and> dto_error (results ! 2) = None"
    by simp_all
  have s0: "classification_succeeds 3 (example_envs 0)"
    and s2: "classification_succeeds 3 (example_envs 2)"
    by (simp_all add: example_envs_def flaky_env_succeeds)
  show ?thesis
    using h1 example_batch_valid h3 h4 s0 s2 r(1,3,4,6) r(2) r0 r2 len by simp
qed

section \<open>Properties of the recommendation store\<close>







lemma getAverageRating_null_excluded:
  assumes "map userRating store = [Some 4, Some 5, None]"
  shows "getAverageRating store = Some 4.5"
proof -
  from assms obtain a b c where s: "store = [a, b, c]"
    and r: "userRating a = Some 4" "userRating b = Some 5" "userRating c = None"
    by (auto simp: map_eq_Cons_conv)
  then show ?thesis by (simp add: getAverageRating_def)
qed

lemma generated_document_has_rating_zero:
  assumes "generateRecommendation ai t0 td t1 store dto = (store', resp)" and "success resp"
  shows "\<exists>r. store' = store @ [r] \<and> userRating r = Some 0"
  using assms
  by (auto simp: generateRecommendation_def save_new_def new_Recommendation_def Let_def
           split: sum.splits)

lemma three_generated_eq:
  "three_generated =
     [new_Recommendation 0 1705314401500 ''sess_1'' ''angular_leaf_spot'' 0.9
        (generateMockRecommendation ''angular_leaf_spot'' 0.9 None) ''MockOpenaiService'' ''1.0.0'',
      new_Recommendation 1 1705314501500 ''sess_2'' ''angular_leaf_spot'' 0.9
        (generateMockRecommendation ''angular_leaf_spot'' 0.9 None) ''MockOpenaiService'' ''1.0.0'',
      new_Recommendation 2 1705314601500 ''sess_3'' ''angular_leaf_spot'' 0.9
        (generateMockRecommendation ''angular_leaf_spot'' 0.9 None) ''MockOpenaiService'' ''1.0.0'']"
  by (simp add: three_generated_def generateRecommendation_def MockOpenaiService_def
        mock_generateRecommendation_def example_generate_dto_def save_new_def fresh_id_def
        schema_validate_def currentPromptVersion_def new_Recommendation_def Let_def)

text \<open>
  C1. The aggregation leaves out the documents whose rating is absent or null (lemma
  \<open>getAverageRating_null_excluded\<close>), but no document created by the service is in
  that state: the schema default stores the rating 0 (lemma
  \<open>generated_document_has_rating_zero\<close>). After three recommendations are generated
  and two of them are rated 4 and 5, the stored ratings are 4, 5 and 0 and the overall
  average is 3, not 4.5.
\<close>

theorem average_rating_counts_unrated_as_zero:
  "map rec_id two_of_three_rated = [0, 1, 2]
   \<and> map userRating two_of_three_rated = [Some 4, Some 5, Some 0]
   \<and> getAverageRating two_of_three_rated = Some 3"
  by (simp add: two_of_three_rated_def three_generated_eq store_after_feedback_def
        submitFeedback_def findById_def save_loaded_def schema_validate_def
        new_Recommendation_def truthy_str_def getAverageRating_def Let_def)

text \<open>
  C9. When the generator throws, \<open>generateRecommendation\<close> returns a result (it has no
  throwing path) with \<open>success = false\<close>, the exception's message (or a default when
  that is empty), no data and the elapsed time, and the collection is unchanged.
\<close>

theorem generator_failure_returns_structured_result:
  assumes "ai_generateRecommendation aiService (gen_classification dto) (gen_confidence dto)
             (gen_additionalContext dto) = Inl e"
  shows "generateRecommendation aiService t_start t_doc t_end store dto
           = (store,
              \<lparr>success = False,
               message = (if exc_message e = [] then ''Failed to generate recommendation''
                          else exc_message e),
               data = None,
               processingTimeMs = t_end - t_start\<rparr>)"
  using assms by (simp add: generateRecommendation_def)

theorem generator_failure_returns_structured_result_witness:
  "ai_generateRecommendation rate_limited_ai (gen_classification (example_generate_dto ''sess_1''))
     (gen_confidence (example_generate_dto ''sess_1''))
     (gen_additionalContext (example_generate_dto ''sess_1''))
     = Inl (BadRequestException
              ''AI service temporarily unavailable due to rate limits. Please try again later.'')
   \<and> generateRecommendation rate_limited_ai 1705314600000 1705314600900 1705314601000
         example_delegated_store (example_generate_dto ''sess_1'')
       = (example_delegated_store,
          \<lparr>success = False,
           message = ''AI service temporarily unavailable due to rate limits. Please try again later.'',
           data = None,
           processingTimeMs = 1000\<rparr>)"
proof -
  have h: "ai_generateRecommendation rate_limited_ai (gen_classification (example_generate_dto ''sess_1''))
     (gen_confidence (example_generate_dto ''sess_1''))
     (gen_additionalContext (example_generate_dto ''sess_1''))
     = Inl (BadRequestException
              ''AI service temporarily unavailable due to rate limits. Please try again later.'')"
    by (simp add: rate_limited_ai_def OpenaiService_def OpenaiService_generateRecommendation_def)
  show ?thesis
    using generator_failure_returns_structured_result [OF h, of 1705314600000 1705314600900
            1705314601000 example_delegated_store] h
    by simp
qed

end
